theory Spec2Isabelle
  imports Complex_Main
begin

text \<open>
  The repository holds a Next.js application with route handlers over an in-memory list
  of books, a script that fetches an access token, and a notebook that chains calls into
  LangChain, FAISS and a hosted language model. The route handlers are the code with
  behaviour of its own and are embedded here. The script and the page component only call
  \<open>fetch\<close>, and the cells of the notebook only call the libraries: the text splitter, the
  vector store and the conversational chain are not code of the repository, and nothing
  is defined for them.
\<close>

section \<open>JavaScript values, requests and responses\<close>

text \<open>
  The route handlers of the Next.js application receive a request, read and write the
  module-level array \<open>books\<close> and answer with a \<open>NextResponse\<close>. Values that travel
  through them are the values of \<open>JSON.parse\<close> together with \<open>undefined\<close>, which
  \<open>Array.prototype.find\<close> returns when nothing matches and which a property read returns
  for a missing property. Numbers are the finite ones, as rationals. An object is the list
  of its own properties in the order of enumeration, each key once.
\<close>

datatype jsval =
    JUndefined
  | JNull
  | JBool bool
  | JNum rat
  | JStr string
  | JArr "jsval list"
  | JObj "(string \<times> jsval) list"

text \<open>
  The exceptions a handler can meet: \<open>request.json()\<close> rejects with a \<open>SyntaxError\<close> when
  the body is not JSON, and reading a property of \<open>null\<close> or \<open>undefined\<close> throws a
  \<open>TypeError\<close>, as does a conversion of an object to a primitive that finds no callable
  \<open>toString\<close> or \<open>valueOf\<close>. No handler catches anything, so an exception ends the call.
\<close>

datatype js_error = SyntaxError | TypeError

datatype payload = Json jsval | Text string

record response =
  status :: nat
  payload :: payload

text \<open>
  What a handler reads of a \<open>NextRequest\<close>: the query string as the list of its
  name/value pairs, and the result of \<open>request.json()\<close>, \<open>None\<close> when the body does not
  parse.
\<close>

record request =
  searchParams :: "(string \<times> string) list"
  json :: "jsval option"

subsection \<open>Serialisation\<close>

text \<open>
  \<open>NextResponse.json(v)\<close> sends \<open>JSON.stringify(v)\<close> with status 200. Stringification
  leaves out every property of an object whose value is \<open>undefined\<close> and writes \<open>null\<close>
  for an \<open>undefined\<close> element of an array. The payload of the response is kept as the
  value a client parses back.
\<close>

fun stringify :: "jsval \<Rightarrow> jsval"
  and stringify_items :: "jsval list \<Rightarrow> jsval list"
  and stringify_props :: "(string \<times> jsval) list \<Rightarrow> (string \<times> jsval) list"
where
  "stringify JUndefined = JUndefined"
| "stringify JNull = JNull"
| "stringify (JBool b) = JBool b"
| "stringify (JNum n) = JNum n"
| "stringify (JStr s) = JStr s"
| "stringify (JArr xs) = JArr (stringify_items xs)"
| "stringify (JObj ps) = JObj (stringify_props ps)"
| "stringify_items [] = []"
| "stringify_items (x # xs) =
     (if x = JUndefined then JNull else stringify x) # stringify_items xs"
| "stringify_props [] = []"
| "stringify_props (p # ps) =
     (if snd p = JUndefined then stringify_props ps
      else (fst p, stringify (snd p)) # stringify_props ps)"

definition NextResponse_json :: "(string \<times> jsval) list \<Rightarrow> response" where
  "NextResponse_json props = \<lparr>status = 200, payload = Json (JObj (stringify_props props))\<rparr>"

definition NextResponse_text :: "string \<Rightarrow> response" where
  "NextResponse_text s = \<lparr>status = 200, payload = Text s\<rparr>"

text \<open>
  A value of \<open>JSON.parse\<close> holds no \<open>undefined\<close> anywhere; stringification gives it back
  unchanged.
\<close>

fun parsed :: "jsval \<Rightarrow> bool"
  and parsed_items :: "jsval list \<Rightarrow> bool"
  and parsed_props :: "(string \<times> jsval) list \<Rightarrow> bool"
where
  "parsed JUndefined = False"
| "parsed JNull = True"
| "parsed (JBool b) = True"
| "parsed (JNum n) = True"
| "parsed (JStr s) = True"
| "parsed (JArr xs) = parsed_items xs"
| "parsed (JObj ps) = parsed_props ps"
| "parsed_items [] = True"
| "parsed_items (x # xs) = (parsed x \<and> parsed_items xs)"
| "parsed_props [] = True"
| "parsed_props (p # ps) = (parsed (snd p) \<and> parsed_props ps)"

section \<open>The books routes\<close>

text \<open>
  \<open>app/api/status/route.ts\<close> imports the array \<open>books\<close> from \<open>./data\<close>, a module that is
  not among the sources; the array is the state here, passed to each handler and returned
  by the one that changes it.

  \<^verbatim>\<open>
  export function GET(request: NextRequest){
  return NextResponse.json({ message:"success", data:books, status: "ok" })
  }
  export async function POST(request: NextRequest) {
      const req = await request.json();
      const updatedBook = books.push(req)
        return NextResponse.json({ updatedBook, status: "success" });
    }
  \<close>
\<close>

definition status_GET :: "request \<Rightarrow> jsval list \<Rightarrow> response" where
  "status_GET request books =
     NextResponse_json
       [(''message'', JStr ''success''), (''data'', JArr books), (''status'', JStr ''ok'')]"

text \<open>\<open>Array.prototype.push\<close> appends its argument and returns the new length.\<close>

definition push :: "jsval list \<Rightarrow> jsval \<Rightarrow> nat \<times> jsval list" where
  "push xs x = (length (xs @ [x]), xs @ [x])"

definition status_POST :: "request \<Rightarrow> jsval list \<Rightarrow> (js_error + response) \<times> jsval list" where
  "status_POST request books =
     (case json request of
        None \<Rightarrow> (Inl SyntaxError, books)
      | Some req \<Rightarrow>
          (let (updatedBook, books') = push books req
           in (Inr (NextResponse_json
                      [(''updatedBook'', JNum (of_nat updatedBook)),
                       (''status'', JStr ''success'')]),
               books')))"

text \<open>
  The handler of a single book, \<open>GET\<close> with the dynamic segment \<open>id\<close>, imports \<open>books\<close>
  from \<open>../data\<close>, taken to be the same module: a module is evaluated once, so both
  files hold the one array.

  \<^verbatim>\<open>
  export function GET(request: NextRequest, {params}:{params:{id: number}}){
    const bookId =  books.find((book)=>{
          return book.id == params.id
      })
  return NextResponse.json({bookId})
  }
  \<close>

  The segment reaches the handler as a string, whatever the annotation says. The read
  \<open>book.id\<close> throws on \<open>null\<close> and \<open>undefined\<close>, gives the own property \<open>id\<close> of an object
  and \<open>undefined\<close> on everything else, none of which has a property of that name.
\<close>

fun get_id :: "jsval \<Rightarrow> js_error + jsval" where
  "get_id JUndefined = Inl TypeError"
| "get_id JNull = Inl TypeError"
| "get_id (JObj props) = Inr (case map_of props ''id'' of None \<Rightarrow> JUndefined | Some v \<Rightarrow> v)"
| "get_id (JBool b) = Inr JUndefined"
| "get_id (JNum n) = Inr JUndefined"
| "get_id (JStr s) = Inr JUndefined"
| "get_id (JArr xs) = Inr JUndefined"

text \<open>
  The operator \<open>==\<close> between a value and a string compares numbers as IEEE doubles and
  converts objects through \<open>valueOf\<close> and \<open>toString\<close>, which throws a \<open>TypeError\<close> when
  own properties of an object hide them (no value of \<open>JSON.parse\<close> is callable). It
  belongs to the language, so it is a parameter of the handler: every result below holds
  for each comparison, the one of JavaScript among them.
\<close>

type_synonym loose_equality = "jsval \<Rightarrow> string \<Rightarrow> js_error + bool"

text \<open>
  Where the left operand is a string, \<open>undefined\<close> or \<open>null\<close> nothing is converted: two
  strings are loosely equal when they are the same string, and neither \<open>undefined\<close> nor
  \<open>null\<close> is loosely equal to a string. \<open>string_eq\<close> is \<open>==\<close> on these operands; the
  concrete evaluations use it on books whose \<open>id\<close> is a string or missing.
\<close>

definition string_eq :: loose_equality where
  "string_eq v s = Inr (v = JStr s)"

text \<open>
  \<open>Array.prototype.find\<close> calls the predicate on the elements in order and returns the
  first element on which it holds, \<open>undefined\<close> when there is none. An exception of the
  predicate leaves \<open>find\<close> at once.
\<close>

fun array_find :: "(jsval \<Rightarrow> js_error + bool) \<Rightarrow> jsval list \<Rightarrow> js_error + jsval" where
  "array_find p [] = Inr JUndefined"
| "array_find p (x # xs) =
     (case p x of
        Inl e \<Rightarrow> Inl e
      | Inr found \<Rightarrow> if found then Inr x else array_find p xs)"

text \<open>The arrow function \<open>(book) => { return book.id == params.id }\<close>.\<close>

definition id_equals :: "loose_equality \<Rightarrow> string \<Rightarrow> jsval \<Rightarrow> js_error + bool" where
  "id_equals eq params_id book =
     (case get_id book of Inl e \<Rightarrow> Inl e | Inr v \<Rightarrow> eq v params_id)"

definition book_GET ::
  "loose_equality \<Rightarrow> request \<Rightarrow> string \<Rightarrow> jsval list \<Rightarrow> js_error + response" where
  "book_GET eq request params_id books =
     (case array_find (id_equals eq params_id) books of
        Inl e \<Rightarrow> Inl e
      | Inr bookId \<Rightarrow> Inr (NextResponse_json [(''bookId'', bookId)]))"

text \<open>
  Two readings of the arrow function on one book: it returns \<open>true\<close>, or it returns at all.
\<close>

definition matches :: "loose_equality \<Rightarrow> string \<Rightarrow> jsval \<Rightarrow> bool" where
  "matches eq params_id book = (id_equals eq params_id book = Inr True)"

definition completes :: "loose_equality \<Rightarrow> string \<Rightarrow> jsval \<Rightarrow> bool" where
  "completes eq params_id book =
     (case id_equals eq params_id book of Inl e \<Rightarrow> False | Inr found \<Rightarrow> True)"

section \<open>The greeting routes\<close>

text \<open>
  \<open>app/api/greetings/[name]/route.tsx\<close> answers with the dynamic segment, and
  \<open>app/api/hello/route.ts\<close> with the query parameter \<open>name\<close> when the URL has one
  (\<open>searchParams.get\<close> gives the first value of that name) and with a fixed text
  otherwise.
\<close>

definition greetings_GET :: "request \<Rightarrow> string \<Rightarrow> response" where
  "greetings_GET request params_name =
     NextResponse_json
       [(''From'', JStr params_name), (''Message'', JStr ''Greetings from Pakistan''),
        (''RequestType'', JStr ''GET'')]"

definition hello_GET :: "request \<Rightarrow> response" where
  "hello_GET request =
     (case map_of (searchParams request) ''name'' of
        Some name \<Rightarrow> NextResponse_json [(''message'', JStr (''Hello, from '' @ name))]
      | None \<Rightarrow>
          NextResponse_text
            (''Hello, from Next.js! If you want to display your name ''
             @ ''kindly provide your name as query parameter in url''))"

section \<open>Properties of POST\<close>

text \<open>
  The body given as the example in the source of the handler:
  \<open>{"id": 145, "name": "Me", "type": "fiction", "available": true}\<close>.
\<close>

definition example_book :: jsval where
  "example_book =
     JObj [(''id'', JNum 145), (''name'', JStr ''Me''), (''type'', JStr ''fiction''),
           (''available'', JBool True)]"

text \<open>
  Claim C9. For every JSON request body \<open>b\<close>, the POST handler of the books route appends
  \<open>b\<close> to the in-memory list exactly as received, whatever it is, and answers with status
  200 and a JSON object whose field \<open>updatedBook\<close> is the length of the list after the
  append, which is the return value of \<open>push\<close>, and not the inserted book: it is a number
  where the book is an object.
\<close>

theorem status_POST_appends_body:
  assumes "json request = Some b"
  shows "status_POST request books =
           (Inr \<lparr>status = 200,
                 payload = Json (JObj [(''updatedBook'', JNum (of_nat (length (books @ [b])))),
                                       (''status'', JStr ''success'')])\<rparr>,
            books @ [b])
         \<and> fst (push books b) = length (books @ [b])
         \<and> (\<forall>props. b = JObj props \<longrightarrow> JNum (of_nat (length (books @ [b]))) \<noteq> b)"
  using assms by (simp add: status_POST_def push_def NextResponse_json_def)

theorem status_POST_appends_body_witness:
  "json \<lparr>searchParams = [], json = Some example_book\<rparr> = Some example_book
   \<and> status_POST \<lparr>searchParams = [], json = Some example_book\<rparr> [] =
       (Inr \<lparr>status = 200,
             payload = Json (JObj [(''updatedBook'', JNum 1), (''status'', JStr ''success'')])\<rparr>,
        [example_book])
   \<and> JNum 1 \<noteq> example_book"
  using status_POST_appends_body
          [of "\<lparr>searchParams = [], json = Some example_book\<rparr>" example_book "[]"]
  by (simp add: example_book_def)

text \<open>A body that does not parse ends the handler before the list is touched.\<close>

lemma status_POST_bad_body:
  "json request = None \<Longrightarrow> status_POST request books = (Inl SyntaxError, books)"
  by (simp add: status_POST_def)

section \<open>Properties of the greeting routes\<close>

lemma greetings_GET_echoes_name:
  "greetings_GET request n =
     \<lparr>status = 200,
      payload = Json (JObj [(''From'', JStr n), (''Message'', JStr ''Greetings from Pakistan''),
                            (''RequestType'', JStr ''GET'')])\<rparr>"
  by (simp add: greetings_GET_def NextResponse_json_def)

lemma hello_GET_with_name:
  "map_of (searchParams request) ''name'' = Some n \<Longrightarrow>
   hello_GET request =
     \<lparr>status = 200, payload = Json (JObj [(''message'', JStr (''Hello, from '' @ n))])\<rparr>"
  by (simp add: hello_GET_def NextResponse_json_def)

lemma hello_GET_without_name:
  "map_of (searchParams request) ''name'' = None \<Longrightarrow>
   (\<exists>s. hello_GET request = \<lparr>status = 200, payload = Text s\<rparr>)"
  by (simp add: hello_GET_def NextResponse_text_def)

section \<open>Serialisation of parsed values\<close>

lemma parsed_stringify:
  "parsed v \<Longrightarrow> stringify v = v"
  "parsed_items xs \<Longrightarrow> stringify_items xs = xs"
  "parsed_props ps \<Longrightarrow> stringify_props ps = ps"
  by (induction v and xs and ps rule: stringify_stringify_items_stringify_props.induct) auto

lemma parsed_items_append:
  "parsed_items (xs @ ys) = (parsed_items xs \<and> parsed_items ys)"
  by (induction xs) auto

text \<open>
  The list handler sends the array as it stands, so a body that was posted comes back
  from it: both handlers work on the one array.
\<close>

lemma status_GET_lists_books:
  assumes "parsed_items books"
  shows "status_GET request books =
           \<lparr>status = 200,
            payload = Json (JObj [(''message'', JStr ''success''), (''data'', JArr books),
                                  (''status'', JStr ''ok'')])\<rparr>"
  using parsed_stringify(2)[OF assms] by (simp add: status_GET_def NextResponse_json_def)

lemma status_GET_after_POST:
  assumes "json request = Some b" and "parsed b" and "parsed_items books"
  shows "status_GET request' (snd (status_POST request books)) =
           \<lparr>status = 200,
            payload = Json (JObj [(''message'', JStr ''success''), (''data'', JArr (books @ [b])),
                                  (''status'', JStr ''ok'')])\<rparr>"
proof -
  from assms have "snd (status_POST request books) = books @ [b]"
    by (simp add: status_POST_def push_def)
  moreover from assms have "parsed_items (books @ [b])"
    by (simp add: parsed_items_append)
  ultimately show ?thesis
    by (simp add: status_GET_lists_books)
qed

section \<open>Properties of GET for one book\<close>

lemma array_find_miss:
  "p x = Inr False \<Longrightarrow> array_find p (x # xs) = array_find p xs"
  by simp

lemma array_find_hit:
  "p x = Inr True \<Longrightarrow> array_find p (x # xs) = Inr x"
  by simp

lemma array_find_throw:
  "p x = Inl e \<Longrightarrow> array_find p (x # xs) = Inl e"
  by simp

text \<open>
  When the predicate returns on every book in front of the first match, \<open>find\<close> returns
  that match, as \<open>List.find\<close> does for the predicate read as a truth value.
\<close>

lemma array_find_first:
  assumes "\<forall>x \<in> set (takeWhile (\<lambda>x. \<not> matches eq i x) xs). completes eq i x"
  shows "array_find (id_equals eq i) xs =
           Inr (case List.find (matches eq i) xs of None \<Rightarrow> JUndefined | Some x \<Rightarrow> x)"
  using assms
proof (induction xs)
  case Nil
  show ?case by simp
next
  case (Cons x xs)
  show ?case
  proof (cases "matches eq i x")
    case True
    then have "id_equals eq i x = Inr True"
      by (simp add: matches_def)
    from array_find_hit[of "id_equals eq i" x xs, OF this] True show ?thesis
      by simp
  next
    case False
    with Cons.prems have c: "completes eq i x"
      and rest: "\<forall>y \<in> set (takeWhile (\<lambda>x. \<not> matches eq i x) xs). completes eq i y"
      by simp_all
    from c False have "id_equals eq i x = Inr False"
      by (cases "id_equals eq i x") (simp_all add: completes_def matches_def)
    from array_find_miss[of "id_equals eq i" x xs, OF this] Cons.IH[OF rest] False
    show ?thesis by simp
  qed
qed

text \<open>A book on which the predicate throws, with no match in front of it, ends the search.\<close>

lemma array_find_stops:
  assumes "\<not> completes eq i x"
    and "\<forall>y \<in> set ys. \<not> matches eq i y \<and> completes eq i y"
  shows "\<exists>e. array_find (id_equals eq i) (ys @ x # zs) = Inl e"
  using assms(2)
proof (induction ys)
  case Nil
  from assms(1) obtain e where "id_equals eq i x = Inl e"
    by (cases "id_equals eq i x") (simp_all add: completes_def)
  from array_find_throw[where p = "id_equals eq i" and x = x and xs = zs, OF this]
  show ?case by simp
next
  case (Cons y ys)
  then have "id_equals eq i y = Inr False"
    by (cases "id_equals eq i y") (simp_all add: completes_def matches_def)
  from array_find_miss[of "id_equals eq i" y "ys @ x # zs", OF this] Cons
  show ?case by simp
qed

lemma null_never_completes: "\<not> completes eq i JNull"
  by (simp add: completes_def id_equals_def)

lemma matches_defined: "matches eq i book \<Longrightarrow> book \<noteq> JUndefined"
  by (auto simp: matches_def id_equals_def)

lemma find_matches: "List.find (matches eq i) xs = Some b \<Longrightarrow> matches eq i b"
  by (auto simp: find_Some_iff)

text \<open>
  The handler throws as soon as a \<open>null\<close> stands in the list with no match in front of
  it, whatever the comparison is.
\<close>

lemma book_GET_throws_at_null:
  assumes "\<forall>y \<in> set ys. \<not> matches eq i y \<and> completes eq i y"
  shows "\<exists>e. book_GET eq request i (ys @ JNull # zs) = Inl e"
proof -
  from array_find_stops[OF null_never_completes assms]
  obtain e where "array_find (id_equals eq i) (ys @ JNull # zs) = Inl e" by blast
  then show ?thesis by (simp add: book_GET_def)
qed

text \<open>
  The handler returns exactly when the comparison returns on every book in front of the
  first match.
\<close>

lemma book_GET_returns_iff:
  "(\<exists>r. book_GET eq request i books = Inr r) \<longleftrightarrow>
   list_all (completes eq i) (takeWhile (\<lambda>book. \<not> matches eq i book) books)"
proof
  assume ok: "\<exists>r. book_GET eq request i books = Inr r"
  show "list_all (completes eq i) (takeWhile (\<lambda>book. \<not> matches eq i book) books)"
  proof (rule ccontr)
    assume "\<not> list_all (completes eq i) (takeWhile (\<lambda>book. \<not> matches eq i book) books)"
    then have "\<exists>x \<in> set (takeWhile (\<lambda>book. \<not> matches eq i book) books). \<not> completes eq i x"
      by (simp add: list_all_iff)
    from split_list_first_prop[OF this]
    obtain ys x zs where tw: "takeWhile (\<lambda>book. \<not> matches eq i book) books = ys @ x # zs"
      and x: "\<not> completes eq i x" and ys: "\<forall>y \<in> set ys. \<not> \<not> completes eq i y"
      by blast
    have "\<forall>y \<in> set ys. \<not> matches eq i y"
    proof
      fix y assume "y \<in> set ys"
      then have "y \<in> set (takeWhile (\<lambda>book. \<not> matches eq i book) books)"
        by (simp add: tw)
      then show "\<not> matches eq i y" by (rule set_takeWhileD[THEN conjunct2])
    qed
    with ys have ys': "\<forall>y \<in> set ys. \<not> matches eq i y \<and> completes eq i y" by blast
    have "books = ys @ x # (zs @ dropWhile (\<lambda>book. \<not> matches eq i book) books)"
      using takeWhile_dropWhile_id[of "\<lambda>book. \<not> matches eq i book" books] tw by simp
    then obtain zs' where "books = ys @ x # zs'" by blast
    with array_find_stops[OF x ys', of zs'] obtain e
      where "array_find (id_equals eq i) books = Inl e" by auto
    then have "book_GET eq request i books = Inl e" by (simp add: book_GET_def)
    with ok show False by simp
  qed
next
  assume "list_all (completes eq i) (takeWhile (\<lambda>book. \<not> matches eq i book) books)"
  then have "\<forall>x \<in> set (takeWhile (\<lambda>x. \<not> matches eq i x) books). completes eq i x"
    by (simp add: list_all_iff)
  from array_find_first[OF this] show "\<exists>r. book_GET eq request i books = Inr r"
    by (simp add: book_GET_def)
qed

text \<open>
  Claim C10, as stated: for every \<open>id\<close> the handler never fails. It fails on a list that
  holds \<open>null\<close>, and the POST handler puts \<open>null\<close> there when the body of a request is the
  JSON text \<open>null\<close>: after that request on the empty list, the read \<open>book.id\<close> throws a
  \<open>TypeError\<close> for the path parameter \<open>1\<close>.
\<close>

theorem book_GET_fails_after_null_POST:
  "snd (status_POST \<lparr>searchParams = [], json = Some JNull\<rparr> []) = [JNull]
   \<and> book_GET string_eq \<lparr>searchParams = [], json = None\<rparr> ''1''
         (snd (status_POST \<lparr>searchParams = [], json = Some JNull\<rparr> [])) = Inl TypeError"
  by (simp add: status_POST_def push_def book_GET_def id_equals_def)

text \<open>
  Claim C10, amended. For every \<open>id\<close> path parameter and every list of books on which the
  comparison \<open>book.id == params.id\<close> returns for each book in front of the first match (for
  each book, when none matches), the handler answers with status 200 and a JSON object
  whose field \<open>bookId\<close> is the first book whose \<open>id\<close> is loosely equal to the parameter.
  When no book matches, \<open>bookId\<close> is \<open>undefined\<close> and the object is sent empty; there is no
  404. A book that is a value of \<open>JSON.parse\<close> is sent as it is.
\<close>

theorem book_GET_first_match:
  assumes "\<forall>book \<in> set (takeWhile (\<lambda>book. \<not> matches eq params_id book) books).
             completes eq params_id book"
  shows "book_GET eq request params_id books =
           Inr \<lparr>status = 200,
                payload = Json (JObj (case List.find (matches eq params_id) books of
                                        None \<Rightarrow> []
                                      | Some book \<Rightarrow> [(''bookId'', stringify book)]))\<rparr>
         \<and> (\<forall>book. List.find (matches eq params_id) books = Some book \<and> parsed book
               \<longrightarrow> stringify book = book)"
proof (cases "List.find (matches eq params_id) books")
  case None
  with array_find_first[OF assms] show ?thesis
    by (simp add: book_GET_def NextResponse_json_def)
next
  case (Some book)
  from matches_defined[OF find_matches[OF Some]] Some array_find_first[OF assms]
  show ?thesis
    by (simp add: book_GET_def NextResponse_json_def parsed_stringify(1))
qed

theorem book_GET_first_match_witness:
  "list_all (completes string_eq ''7'')
     (takeWhile (\<lambda>book. \<not> matches string_eq ''7'' book)
        [JNum 3, JObj [(''id'', JStr ''7''), (''name'', JStr ''Me'')], JNull])
   \<and> book_GET string_eq \<lparr>searchParams = [], json = None\<rparr> ''7''
         [JNum 3, JObj [(''id'', JStr ''7''), (''name'', JStr ''Me'')], JNull] =
       Inr \<lparr>status = 200,
            payload = Json (JObj [(''bookId'',
                                   JObj [(''id'', JStr ''7''), (''name'', JStr ''Me'')])])\<rparr>
   \<and> book_GET string_eq \<lparr>searchParams = [], json = None\<rparr> ''8''
         [JNum 3, JObj [(''id'', JStr ''7''), (''name'', JStr ''Me'')]] =
       Inr \<lparr>status = 200, payload = Json (JObj [])\<rparr>"
  using book_GET_first_match
          [of string_eq "''7''"
              "[JNum 3, JObj [(''id'', JStr ''7''), (''name'', JStr ''Me'')], JNull]"
              "\<lparr>searchParams = [], json = None\<rparr>"]
        book_GET_first_match
          [of string_eq "''8''"
              "[JNum 3, JObj [(''id'', JStr ''7''), (''name'', JStr ''Me'')]]"
              "\<lparr>searchParams = [], json = None\<rparr>"]
  by (simp add: matches_def completes_def id_equals_def string_eq_def)

end
